theory Spec2Isabelle
  imports Main
begin

section \<open>Data model\<close>

text \<open>
  Exceptions are values. The source raises nothing by itself: what can go wrong is a Python
  built-in (\<open>input_tensors[0]\<close> on an empty tuple, a missing dictionary key, a clashing
  keyword argument) or an exception of a collaborator (the TVM runtime, the metadata
  reader), which the source never catches. A collaborator's exception is \<open>Foreign\<close>,
  identified by the name of its class.
\<close>

datatype py_error = IndexError | KeyError | TypeError | Foreign string

text \<open>A raw array (\<open>np.ndarray\<close>): its shape and its contents, the latter left abstract.\<close>

datatype 'd ndarray = NDArray (shape: "int list") (elems: 'd)

text \<open>
  The buffer that \<open>tvm.nd.empty(shape)\<close> returns. Its contents are not initialised, so the
  buffer is described by its shape alone.
\<close>

datatype tvm_nd = NdEmpty (nd_shape: "int list")

text \<open>
  Modelled from the spec: \<open>ModelParams\<close> of \<open>nebullvm.base\<close> is not under src/. The spec
  describes it as the batch size together with the ordered list of output shapes; these are
  the two fields the source reads.
\<close>

record ModelParams =
  batch_size :: int
  output_sizes :: "int list list"

text \<open>\<open>tvm.device(target, index)\<close>: the resolved device handle.\<close>

datatype device = Device string int

text \<open>
  The graph executor is an object of the TVM runtime. The source drives it through three
  methods; the model keeps, as the executor's state, the library and the device it was built
  from and the calls made on it so far, in order.
\<close>

datatype 'd call = SetInput string "'d ndarray" | Run | GetOutput nat tvm_nd

record ('l, 'd) GraphModule =
  gm_lib :: 'l
  gm_dev :: device
  calls :: "'d call list"

text \<open>
  What the executor holds, as the specification describes it: its bound inputs. Replaying
  the calls gives, for each name, the array of the latest \<open>set_input\<close>, and the bindings
  that were in place at the latest \<open>run\<close> (\<open>None\<close> before the first).
\<close>

type_synonym 'd bindings = "string \<Rightarrow> 'd ndarray option"

fun replay :: "'d bindings \<times> 'd bindings option \<Rightarrow> 'd call \<Rightarrow> 'd bindings \<times> 'd bindings option" where
  "replay (bound, at_run) (SetInput name array) = (bound(name \<mapsto> array), at_run)"
| "replay (bound, at_run) Run = (bound, Some bound)"
| "replay (bound, at_run) (GetOutput _ _) = (bound, at_run)"


definition inputs_at_run :: "'d call list \<Rightarrow> 'd bindings option" where
  "inputs_at_run cs = snd (foldl replay (Map.empty, None) cs)"

text \<open>
  \<open>pathlib.Path\<close> on a POSIX system: the root (\<open>/\<close>, \<open>//\<close> or none) and the components,
  among which empty ones and \<open>.\<close> are dropped. \<open>Path(path)\<close> is what \<open>save\<close> and \<open>load\<close>
  begin with, and \<open>truediv\<close> is the operator \<open>/\<close>.
\<close>

datatype path = PurePath (path_root: string) (path_parts: "string list")

fun split_slash :: "string \<Rightarrow> string list" where
  "split_slash [] = [[]]"
| "split_slash (c # cs) =
     (if c = CHR ''/'' then [] # split_slash cs
      else (case split_slash cs of [] \<Rightarrow> [[c]] | p # ps \<Rightarrow> (c # p) # ps))"

definition root_of :: "string \<Rightarrow> string" where
  "root_of s =
     (if take 2 s = ''//'' \<and> take 3 s \<noteq> ''///'' then ''//''
      else if take 1 s = ''/'' then ''/''
      else [])"

definition Path :: "string \<Rightarrow> path" where
  "Path s = PurePath (root_of s) (filter (\<lambda>p. p \<noteq> [] \<and> p \<noteq> ''.'') (split_slash s))"

definition truediv :: "path \<Rightarrow> string \<Rightarrow> path" where
  "truediv p name =
     (let q = Path name
      in if path_root q \<noteq> [] then q
         else PurePath (path_root p) (path_parts p @ path_parts q))"

text \<open>
  What the collaborators do is a parameter of every function below: whether a call raises
  and with which exception, and the data an output holds. The data of the \<open>i\<close>-th output is
  a function of the library, the device and the inputs bound at the latest \<open>run\<close>: the
  runtime executes the compiled graph on its bound inputs. \<open>engine_filename\<close> is
  \<open>TVM_FILENAMES["engine"]\<close> of \<open>nebullvm.config\<close>, which is not under src/.
\<close>

record ('l, 'd) tvm =
  engine_filename :: string
  device_fault :: "string \<Rightarrow> int \<Rightarrow> py_error option"
  create_fault :: "'l \<Rightarrow> device \<Rightarrow> py_error option"
  call_fault :: "('l, 'd) GraphModule \<Rightarrow> 'd call \<Rightarrow> py_error option"
  output_data :: "'l \<Rightarrow> device \<Rightarrow> 'd bindings option \<Rightarrow> nat \<Rightarrow> 'd"
  shape_error :: "int list \<Rightarrow> py_error"
  alloc_fault :: "int list \<Rightarrow> py_error option"
  load_fault :: "path \<Rightarrow> py_error"
  export_fault :: "path \<Rightarrow> py_error option"
  read_fault :: "path \<Rightarrow> py_error"
  write_fault :: "path \<Rightarrow> py_error option"
  from_model_fault :: "(string \<times> string) list \<Rightarrow> py_error option"

text \<open>The dataclass \<open>ApacheTVMInferenceLearner\<close>, with the field inherited from its base.\<close>

record ('l, 'd) ApacheTVMInferenceLearner =
  network_parameters :: ModelParams
  graph_executor_module :: "('l, 'd) GraphModule"
  input_names :: "string list"
  lib :: 'l
  target :: string

section \<open>The graph executor's methods\<close>

text \<open>
  Each method records the call and returns what the runtime answers: an exception or a
  value, next to the executor's new state (the object is mutated also when it raises).
\<close>

definition invoke ::
  "('l, 'd) tvm \<Rightarrow> 'd call \<Rightarrow> ('l, 'd) GraphModule \<Rightarrow> py_error option \<times> ('l, 'd) GraphModule" where
  "invoke T c g = (call_fault T g c, g\<lparr>calls := calls g @ [c]\<rparr>)"

definition set_input ::
  "('l, 'd) tvm \<Rightarrow> string \<Rightarrow> 'd ndarray \<Rightarrow> ('l, 'd) GraphModule
     \<Rightarrow> (py_error + unit) \<times> ('l, 'd) GraphModule" where
  "set_input T name array g =
     (case invoke T (SetInput name array) g of
        (Some e, g') \<Rightarrow> (Inl e, g')
      | (None, g') \<Rightarrow> (Inr (), g'))"

definition run ::
  "('l, 'd) tvm \<Rightarrow> ('l, 'd) GraphModule \<Rightarrow> (py_error + unit) \<times> ('l, 'd) GraphModule" where
  "run T g =
     (case invoke T Run g of
        (Some e, g') \<Rightarrow> (Inl e, g')
      | (None, g') \<Rightarrow> (Inr (), g'))"

text \<open>
  \<open>get_output(i, out).numpy()\<close>: the runtime copies the \<open>i\<close>-th output into the buffer
  \<open>out\<close> and returns it; \<open>numpy()\<close> changes the representation only. The result has the
  buffer's shape.
\<close>

definition get_output ::
  "('l, 'd) tvm \<Rightarrow> nat \<Rightarrow> tvm_nd \<Rightarrow> ('l, 'd) GraphModule
     \<Rightarrow> (py_error + 'd ndarray) \<times> ('l, 'd) GraphModule" where
  "get_output T i out g =
     (case invoke T (GetOutput i out) g of
        (Some e, g') \<Rightarrow> (Inl e, g')
      | (None, g') \<Rightarrow>
          (Inr (NDArray (nd_shape out)
                  (output_data T (gm_lib g) (gm_dev g) (inputs_at_run (calls g)) i)),
           g'))"

text \<open>
  \<open>tvm.nd.empty(shape)\<close> raises for a shape with a negative dimension, and otherwise when
  the runtime cannot allocate the buffer.
\<close>

definition nd_empty :: "('l, 'd) tvm \<Rightarrow> int list \<Rightarrow> py_error + tvm_nd" where
  "nd_empty T dims =
     (if list_ex (\<lambda>d. d < 0) dims then Inl (shape_error T dims)
      else (case alloc_fault T dims of
              Some e \<Rightarrow> Inl e
            | None \<Rightarrow> Inr (NdEmpty dims)))"

section \<open>The predict sequence\<close>

text \<open>
  The loop \<open>for name, array in zip(self.input_names, input_arrays)\<close>, over the pairs that
  \<open>zip\<close> yields. It stops at the first call that raises.
\<close>

fun set_inputs ::
  "('l, 'd) tvm \<Rightarrow> (string \<times> 'd ndarray) list \<Rightarrow> ('l, 'd) GraphModule
     \<Rightarrow> (py_error + unit) \<times> ('l, 'd) GraphModule" where
  "set_inputs T [] g = (Inr (), g)"
| "set_inputs T ((name, array) # rest) g =
     (case set_input T name array g of
        (Inl e, g') \<Rightarrow> (Inl e, g')
      | (Inr _, g') \<Rightarrow> set_inputs T rest g')"

text \<open>
  \<open>_predict_array\<close> (here \<open>predict_array\<close>, as a name cannot begin with an underscore)
  returns a generator: the outputs are fetched only when the caller iterates over it.
  The generator is the list \<open>enumerate(output_sizes)\<close> still to be
  visited; \<open>tvm_outputs\<close> below is its consumption by \<open>tuple(...)\<close>.
\<close>

type_synonym generator = "(nat \<times> int list) list"

definition predict_array ::
  "('l, 'd) tvm \<Rightarrow> ('l, 'd) ApacheTVMInferenceLearner \<Rightarrow> 'd ndarray list
     \<Rightarrow> (py_error + generator) \<times> ('l, 'd) ApacheTVMInferenceLearner" where
  "predict_array T self input_arrays =
     (case set_inputs T (zip (input_names self) input_arrays) (graph_executor_module self) of
        (Inl e, g) \<Rightarrow> (Inl e, self\<lparr>graph_executor_module := g\<rparr>)
      | (Inr _, g) \<Rightarrow>
          (case run T g of
             (Inl e, g') \<Rightarrow> (Inl e, self\<lparr>graph_executor_module := g'\<rparr>)
           | (Inr _, g') \<Rightarrow>
               (Inr (enumerate 0 (output_sizes (network_parameters self))),
                self\<lparr>graph_executor_module := g'\<rparr>)))"

text \<open>
  One step of the generator evaluates \<open>tvm.nd.empty((batch_size, *output_size))\<close> first, as
  the argument of \<open>get_output\<close>; when the allocation raises, \<open>get_output\<close> is not called.
\<close>

fun fetch_outputs ::
  "('l, 'd) tvm \<Rightarrow> int \<Rightarrow> generator \<Rightarrow> ('l, 'd) GraphModule
     \<Rightarrow> (py_error + 'd ndarray list) \<times> ('l, 'd) GraphModule" where
  "fetch_outputs T b [] g = (Inr [], g)"
| "fetch_outputs T b ((i, output_size) # rest) g =
     (case nd_empty T (b # output_size) of
        Inl e \<Rightarrow> (Inl e, g)
      | Inr buffer \<Rightarrow>
          (case get_output T i buffer g of
             (Inl e, g') \<Rightarrow> (Inl e, g')
           | (Inr out, g') \<Rightarrow>
               (case fetch_outputs T b rest g' of
                  (Inl e, g'') \<Rightarrow> (Inl e, g'')
                | (Inr outs, g'') \<Rightarrow> (Inr (out # outs), g''))))"

definition tvm_outputs ::
  "('l, 'd) tvm \<Rightarrow> ('l, 'd) ApacheTVMInferenceLearner \<Rightarrow> generator
     \<Rightarrow> (py_error + 'd ndarray list) \<times> ('l, 'd) ApacheTVMInferenceLearner" where
  "tvm_outputs T self gen =
     (case fetch_outputs T (batch_size (network_parameters self)) gen (graph_executor_module self) of
        (r, g) \<Rightarrow> (r, self\<lparr>graph_executor_module := g\<rparr>))"

section \<open>The PyTorch variant\<close>

text \<open>
  A device identity is any Python value (\<open>device: Any\<close>). \<open>isinstance(device, int)\<close>
  holds of an \<open>int\<close> and of a \<open>bool\<close>, which is a subclass of \<open>int\<close>.
  \<open>convert_device\<close> is the source's \<open>_convert_device\<close>.
\<close>

datatype py_value = PyInt int | PyBool bool | PyStr string | PyNone | PyObject string

fun isinstance_int :: "py_value \<Rightarrow> bool" where
  "isinstance_int (PyInt _) = True"
| "isinstance_int (PyBool _) = True"
| "isinstance_int _ = False"

definition convert_device :: "py_value \<Rightarrow> py_value" where
  "convert_device device = (if isinstance_int device then PyStr ''cpu'' else device)"

text \<open>
  The capabilities consumed from the host tensor framework, on a tensor type \<open>'t\<close>:
  \<open>get_device()\<close>, \<open>cpu()\<close>, \<open>detach()\<close>, \<open>numpy()\<close>, \<open>torch.from_numpy\<close> and
  \<open>to(device)\<close>. They allocate and do not mutate their argument.
\<close>

record ('t, 'd) torch =
  torch_get_device :: "'t \<Rightarrow> py_value"
  torch_cpu :: "'t \<Rightarrow> 't"
  torch_detach :: "'t \<Rightarrow> 't"
  torch_numpy :: "'t \<Rightarrow> 'd ndarray"
  torch_from_numpy :: "'d ndarray \<Rightarrow> 't"
  torch_to :: "'t \<Rightarrow> py_value \<Rightarrow> 't"

definition predict ::
  "('l, 'd) tvm \<Rightarrow> ('t, 'd) torch \<Rightarrow> ('l, 'd) ApacheTVMInferenceLearner \<Rightarrow> 't list
     \<Rightarrow> (py_error + 't list) \<times> ('l, 'd) ApacheTVMInferenceLearner" where
  "predict T P self input_tensors =
     (case input_tensors of
        [] \<Rightarrow> (Inl IndexError, self)
      | first # _ \<Rightarrow>
          (let device = convert_device (torch_get_device P first);
               input_arrays =
                 map (\<lambda>input_tensor. torch_numpy P (torch_detach P (torch_cpu P input_tensor)))
                   input_tensors
           in case predict_array T self input_arrays of
                (Inl e, self') \<Rightarrow> (Inl e, self')
              | (Inr output_arrays, self') \<Rightarrow>
                  (case tvm_outputs T self' output_arrays of
                     (Inl e, self'') \<Rightarrow> (Inl e, self'')
                   | (Inr arrays, self'') \<Rightarrow>
                       (Inr (map (\<lambda>output_array.
                                    torch_to P (torch_from_numpy P output_array) device) arrays),
                        self''))))"

section \<open>The TensorFlow variant\<close>



section \<open>Construction\<close>

definition tvm_device :: "('l, 'd) tvm \<Rightarrow> string \<Rightarrow> int \<Rightarrow> py_error + device" where
  "tvm_device T dev_type dev_id =
     (case device_fault T dev_type dev_id of
        Some e \<Rightarrow> Inl e
      | None \<Rightarrow> Inr (Device dev_type dev_id))"

text \<open>\<open>GraphModule(lib["default"](dev))\<close>: a new executor, on which nothing was called yet.\<close>

definition new_GraphModule ::
  "('l, 'd) tvm \<Rightarrow> 'l \<Rightarrow> device \<Rightarrow> py_error + ('l, 'd) GraphModule" where
  "new_GraphModule T l dev =
     (case create_fault T l dev of
        Some e \<Rightarrow> Inl e
      | None \<Rightarrow> Inr \<lparr>gm_lib = l, gm_dev = dev, calls = []\<rparr>)"

text \<open>
  \<open>target_device\<close> is a \<open>str\<close>, on which \<open>str(...)\<close> is the identity. The class \<open>cls\<close>
  decides which \<open>predict\<close> the instance has and nothing in its fields.
\<close>

definition from_runtime_module ::
  "('l, 'd) tvm \<Rightarrow> ModelParams \<Rightarrow> 'l \<Rightarrow> string \<Rightarrow> string list
     \<Rightarrow> py_error + ('l, 'd) ApacheTVMInferenceLearner" where
  "from_runtime_module T network_parameters' lib' target_device input_names' =
     (case tvm_device T target_device 0 of
        Inl e \<Rightarrow> Inl e
      | Inr dev \<Rightarrow>
          (case new_GraphModule T lib' dev of
             Inl e \<Rightarrow> Inl e
           | Inr graph_executor_module' \<Rightarrow>
               Inr \<lparr>network_parameters = network_parameters',
                    graph_executor_module = graph_executor_module',
                    input_names = input_names',
                    lib = lib',
                    target = target_device\<rparr>))"

section \<open>Persistence\<close>

text \<open>
  Modelled from the spec: \<open>LearnerMetadata\<close> of \<open>nebullvm.inference_learners.base\<close> is not
  under src/. The spec describes it as an opaque key-value persistence service: a record of
  \<open>network_parameters\<close>, \<open>input_names\<close>, \<open>target\<close> and any extra key-values of the caller,
  written to and read from a directory. A key that a stored record lacks is \<open>None\<close>. Under
  \<open>network_parameters\<close> the record holds the mapping of the fields of a \<open>ModelParams\<close>, as
  \<open>from_model\<close> stores it, or whatever else a record found on disk may hold there
  (\<open>NotParams\<close>: \<open>None\<close>, a mapping with other keys).
\<close>

datatype stored_params = ParamsDict ModelParams | NotParams string

record LearnerMetadata =
  md_network_parameters :: "stored_params option"
  md_input_names :: "string list option"
  md_target :: "string option"
  md_extra :: "(string \<times> string) list"

text \<open>
  \<open>ModelParams(**value)\<close>: Python raises \<open>TypeError\<close> when \<open>value\<close> is not a mapping of the
  fields of a \<open>ModelParams\<close>.
\<close>

fun new_ModelParams :: "stored_params \<Rightarrow> py_error + ModelParams" where
  "new_ModelParams (ParamsDict params) = Inr params"
| "new_ModelParams (NotParams _) = Inl TypeError"

text \<open>
  Durable storage: the metadata record of each directory, and the exported libraries by
  path.
\<close>

record 'l storage =
  metadata_files :: "path \<Rightarrow> LearnerMetadata option"
  library_files :: "path \<Rightarrow> 'l option"



definition LearnerMetadata_read ::
  "('l, 'd) tvm \<Rightarrow> 'l storage \<Rightarrow> path \<Rightarrow> py_error + LearnerMetadata" where
  "LearnerMetadata_read T fs dir =
     (case metadata_files fs dir of
        None \<Rightarrow> Inl (read_fault T dir)
      | Some metadata \<Rightarrow> Inr metadata)"


definition load_module :: "('l, 'd) tvm \<Rightarrow> 'l storage \<Rightarrow> path \<Rightarrow> py_error + 'l" where
  "load_module T fs file =
     (case library_files fs file of
        None \<Rightarrow> Inl (load_fault T file)
      | Some l \<Rightarrow> Inr l)"


text \<open>
  \<open>load\<close>, in the order of the source: the metadata is read, \<open>ModelParams\<close> is rebuilt from
  the entry \<open>network_parameters\<close>, the library is loaded, and only then \<open>target\<close> and
  \<open>input_names\<close> are looked up.
\<close>

definition load ::
  "('l, 'd) tvm \<Rightarrow> string \<Rightarrow> 'l storage \<Rightarrow> py_error + ('l, 'd) ApacheTVMInferenceLearner" where
  "load T path fs =
     (let path' = Path path
      in case LearnerMetadata_read T fs path' of
           Inl e \<Rightarrow> Inl e
         | Inr metadata \<Rightarrow>
             (case md_network_parameters metadata of
                None \<Rightarrow> Inl KeyError
              | Some stored \<Rightarrow>
                  (case new_ModelParams stored of
                     Inl e \<Rightarrow> Inl e
                   | Inr network_parameters' \<Rightarrow>
                       (case load_module T fs (truediv path' (engine_filename T)) of
                          Inl e \<Rightarrow> Inl e
                        | Inr lib' \<Rightarrow>
                            (case md_target metadata of
                               None \<Rightarrow> Inl KeyError
                             | Some target_device \<Rightarrow>
                                 (case md_input_names metadata of
                                    None \<Rightarrow> Inl KeyError
                                  | Some input_names' \<Rightarrow>
                                      from_runtime_module T network_parameters' lib'
                                        target_device input_names'))))))"

section \<open>The dispatch table\<close>

text \<open>
  Modelled from the spec: the enum \<open>DeepLearningFramework\<close> of \<open>nebullvm.base\<close> is not
  under src/. The spec enumerates two host-framework identities, the two the table names;
  \<open>OTHER\<close> is any other identity a caller may look up (a Python dict accepts any hashable
  key).
\<close>

datatype DeepLearningFramework = PYTORCH | TENSORFLOW | OTHER string

datatype learner_class = PytorchApacheTVMInferenceLearner | TensorflowApacheTVMInferenceLearner

definition TVM_INFERENCE_LEARNERS :: "(DeepLearningFramework \<times> learner_class) list" where
  "TVM_INFERENCE_LEARNERS =
     [(PYTORCH, PytorchApacheTVMInferenceLearner),
      (TENSORFLOW, TensorflowApacheTVMInferenceLearner)]"

text \<open>Subscripting a Python dict, \<open>d[key]\<close>.\<close>

definition getitem :: "('k \<times> 'v) list \<Rightarrow> 'k \<Rightarrow> py_error + 'v" where
  "getitem d key = (case map_of d key of None \<Rightarrow> Inl KeyError | Some v \<Rightarrow> Inr v)"

section \<open>Conditions on a run\<close>

text \<open>
  The runtime accepts a sequence of calls on an executor when none of them, made in this
  order, raises.
\<close>

fun accepts :: "('l, 'd) tvm \<Rightarrow> ('l, 'd) GraphModule \<Rightarrow> 'd call list \<Rightarrow> bool" where
  "accepts T g [] = True"
| "accepts T g (c # cs) = (call_fault T g c = None \<and> accepts T (g\<lparr>calls := calls g @ [c]\<rparr>) cs)"

text \<open>
  The executor is the handle's own and holds bindings for at most the first \<open>k\<close> input
  names: it was built from the handle's library on the device of its target, with index 0,
  and \<open>set_input\<close> was called on it for names among the first \<open>k\<close> only. An executor as
  \<open>from_runtime_module\<close> builds it satisfies this for every \<open>k\<close>, and a \<open>predict\<close> on \<open>n\<close>
  tensors leads from \<open>k\<close> to the larger of \<open>k\<close> and \<open>n\<close>.
\<close>

fun names_known :: "string list \<Rightarrow> 'd call \<Rightarrow> bool" where
  "names_known names (SetInput name _) = (name \<in> set names)"
| "names_known names Run = True"
| "names_known names (GetOutput _ _) = True"

definition own_executor :: "('l, 'd) ApacheTVMInferenceLearner \<Rightarrow> nat \<Rightarrow> bool" where
  "own_executor self k =
     (gm_lib (graph_executor_module self) = lib self
      \<and> gm_dev (graph_executor_module self) = Device (target self) 0
      \<and> list_all (names_known (take k (input_names self))) (calls (graph_executor_module self)))"

section \<open>An example environment\<close>

text \<open>
  A runtime whose libraries are named by strings and whose array contents are numbers. The
  compiled graph has two inputs, \<open>input_0\<close> and \<open>input_1\<close>, and one output, their sum (an
  input that was never bound counts as 0). \<open>set_input\<close> raises for any other name and
  \<open>get_output\<close> for any other index.
\<close>

definition input_value :: "nat bindings \<Rightarrow> string \<Rightarrow> nat" where
  "input_value bound name = (case bound name of None \<Rightarrow> 0 | Some a \<Rightarrow> elems a)"

definition example_output :: "string \<Rightarrow> device \<Rightarrow> nat bindings option \<Rightarrow> nat \<Rightarrow> nat" where
  "example_output l dev at_run i =
     (case at_run of
        None \<Rightarrow> 0
      | Some bound \<Rightarrow> input_value bound ''input_0'' + input_value bound ''input_1'')"

fun example_fault :: "(string, nat) GraphModule \<Rightarrow> nat call \<Rightarrow> py_error option" where
  "example_fault g (SetInput name _) =
     (if name = ''input_0'' \<or> name = ''input_1'' then None else Some (Foreign ''TVMError''))"
| "example_fault g Run = None"
| "example_fault g (GetOutput i _) = (if i = 0 then None else Some (Foreign ''TVMError''))"

definition example_tvm :: "(string, nat) tvm" where
  "example_tvm =
     \<lparr>engine_filename = ''compiled_lib.so'',
      device_fault = (\<lambda>_ _. None),
      create_fault = (\<lambda>_ _. None),
      call_fault = example_fault,
      output_data = example_output,
      shape_error = (\<lambda>_. Foreign ''TVMError''),
      alloc_fault = (\<lambda>_. None),
      load_fault = (\<lambda>_. Foreign ''ValueError''),
      export_fault = (\<lambda>_. None),
      read_fault = (\<lambda>_. Foreign ''FileNotFoundError''),
      write_fault = (\<lambda>_. None),
      from_model_fault = (\<lambda>_. None)\<rparr>"

definition example_learner :: "(string, nat) ApacheTVMInferenceLearner" where
  "example_learner =
     \<lparr>network_parameters = \<lparr>batch_size = 2, output_sizes = [[10]]\<rparr>,
      graph_executor_module = \<lparr>gm_lib = ''lib'', gm_dev = Device ''llvm'' 0, calls = []\<rparr>,
      input_names = [''input_0'', ''input_1''],
      lib = ''lib'',
      target = ''llvm''\<rparr>"

text \<open>
  A tensor of the example: its array, the device \<open>get_device()\<close> reports, and whether it
  is attached to a gradient graph.
\<close>

record example_tensor =
  t_array :: "nat ndarray"
  t_device :: py_value
  t_grad :: bool

definition example_torch :: "(example_tensor, nat) torch" where
  "example_torch =
     \<lparr>torch_get_device = t_device,
      torch_cpu = (\<lambda>t. t\<lparr>t_device := PyInt (-1)\<rparr>),
      torch_detach = (\<lambda>t. t\<lparr>t_grad := False\<rparr>),
      torch_numpy = t_array,
      torch_from_numpy = (\<lambda>a. \<lparr>t_array = a, t_device = PyInt (-1), t_grad = False\<rparr>),
      torch_to = (\<lambda>t d. t\<lparr>t_device := d\<rparr>)\<rparr>"

text \<open>Two tensors on an accelerator, and a directory that holds a metadata record only.\<close>

definition example_tensors :: "example_tensor list" where
  "example_tensors =
     [\<lparr>t_array = NDArray [2, 3] 5, t_device = PyInt 0, t_grad = True\<rparr>,
      \<lparr>t_array = NDArray [2, 3] 7, t_device = PyInt 0, t_grad = False\<rparr>]"

definition example_storage :: "string storage" where
  "example_storage =
     \<lparr>metadata_files =
        [Path ''model'' \<mapsto>
           \<lparr>md_network_parameters = Some (ParamsDict \<lparr>batch_size = 2, output_sizes = [[10]]\<rparr>),
            md_input_names = Some [''input_0'', ''input_1''],
            md_target = Some ''llvm'',
            md_extra = []\<rparr>],
      library_files = Map.empty\<rparr>"




section \<open>Properties\<close>

subsection \<open>The calls of the predict sequence\<close>

lemma zip_by_index:
  "zip xs ys = map (\<lambda>i. (xs ! i, ys ! i)) [0..<min (length xs) (length ys)]"
  by (rule nth_equalityI) simp_all

lemma map_enumerate_by_index:
  "map (\<lambda>(i, s). f i s) (enumerate n xs) = map (\<lambda>i. f (n + i) (xs ! i)) [0..<length xs]"
  by (rule nth_equalityI) (simp_all add: nth_enumerate_eq)

lemma accepts_append:
  "accepts T g (xs @ ys) = (accepts T g xs \<and> accepts T (g\<lparr>calls := calls g @ xs\<rparr>) ys)"
  by (induction xs arbitrary: g) simp_all

lemma set_inputs_accepted:
  assumes "accepts T g (map (\<lambda>(n, a). SetInput n a) ps)"
  shows "set_inputs T ps g = (Inr (), g\<lparr>calls := calls g @ map (\<lambda>(n, a). SetInput n a) ps\<rparr>)"
  using assms
  by (induction ps arbitrary: g) (auto simp: set_input_def invoke_def)

lemma predict_array_after_inputs:
  assumes "accepts T (graph_executor_module self)
             (map (\<lambda>(n, a). SetInput n a) (zip (input_names self) arrays))"
  shows "predict_array T self arrays =
    ((case call_fault T ((graph_executor_module self)
              \<lparr>calls := calls (graph_executor_module self)
                 @ map (\<lambda>(n, a). SetInput n a) (zip (input_names self) arrays)\<rparr>) Run of
        None \<Rightarrow> Inr (enumerate 0 (output_sizes (network_parameters self)))
      | Some e \<Rightarrow> Inl e),
     self\<lparr>graph_executor_module := (graph_executor_module self)
        \<lparr>calls := calls (graph_executor_module self)
            @ map (\<lambda>(n, a). SetInput n a) (zip (input_names self) arrays) @ [Run]\<rparr>\<rparr>)"
  by (simp add: predict_array_def set_inputs_accepted[OF assms] run_def invoke_def
      split: option.splits)

lemma set_calls_by_index:
  "map (\<lambda>(n, a). SetInput n a) (zip names arrays)
     = map (\<lambda>i. SetInput (names ! i) (arrays ! i)) [0..<min (length names) (length arrays)]"
  by (simp add: zip_by_index)

text \<open>
  C1. When as many input arrays are supplied as the handle has input names, say \<open>N\<close>, and
  none of the \<open>N\<close> calls \<open>set_input(name, array)\<close> raises, \<open>_predict_array\<close> has called
  \<open>set_input\<close> exactly \<open>N\<close> times, the \<open>i\<close>-th call with the \<open>i\<close>-th name and the \<open>i\<close>-th
  array, and then \<open>run()\<close> exactly once: these \<open>N + 1\<close> calls, in this order, are what it
  adds to the calls made on the executor. Its result is the generator, unless \<open>run()\<close>
  itself raises, and then it is the exception of \<open>run()\<close>.
\<close>

theorem predict_array_set_input_then_run:
  assumes "length input_arrays = length (input_names self)"
    and "accepts T (graph_executor_module self)
           (map (\<lambda>i. SetInput (input_names self ! i) (input_arrays ! i))
              [0..<length (input_names self)])"
  shows "calls (graph_executor_module (snd (predict_array T self input_arrays))) =
           calls (graph_executor_module self)
           @ map (\<lambda>i. SetInput (input_names self ! i) (input_arrays ! i))
               [0..<length (input_names self)]
           @ [Run]
       \<and> fst (predict_array T self input_arrays) =
           (case call_fault T ((graph_executor_module self)
                   \<lparr>calls := calls (graph_executor_module self)
                      @ map (\<lambda>i. SetInput (input_names self ! i) (input_arrays ! i))
                          [0..<length (input_names self)]\<rparr>) Run of
              None \<Rightarrow> Inr (enumerate 0 (output_sizes (network_parameters self)))
            | Some e \<Rightarrow> Inl e)"
proof -
  have s: "map (\<lambda>(n, a). SetInput n a) (zip (input_names self) input_arrays)
         = map (\<lambda>i. SetInput (input_names self ! i) (input_arrays ! i))
             [0..<length (input_names self)]"
    using assms(1) by (simp add: set_calls_by_index)
  have "accepts T (graph_executor_module self)
          (map (\<lambda>(n, a). SetInput n a) (zip (input_names self) input_arrays))"
    using assms(2) by (simp only: s)
  from predict_array_after_inputs[OF this] show ?thesis
    by (simp only: s fst_conv snd_conv) simp
qed

theorem predict_array_set_input_then_run_witness:
  "length [NDArray [2, 3] 5, NDArray [2, 3] (7::nat)] = length (input_names example_learner)
   \<and> accepts example_tvm (graph_executor_module example_learner)
       [SetInput ''input_0'' (NDArray [2, 3] 5), SetInput ''input_1'' (NDArray [2, 3] 7)]
   \<and> calls (graph_executor_module
        (snd (predict_array example_tvm example_learner [NDArray [2, 3] 5, NDArray [2, 3] 7]))) =
       [SetInput ''input_0'' (NDArray [2, 3] 5), SetInput ''input_1'' (NDArray [2, 3] 7), Run]
   \<and> fst (predict_array example_tvm example_learner [NDArray [2, 3] 5, NDArray [2, 3] 7])
       = Inr [(0, [10])]"
  using predict_array_set_input_then_run
          [where input_arrays = "[NDArray [2, 3] 5, NDArray [2, 3] 7]" and self = example_learner
             and T = example_tvm]
  by (simp add: example_tvm_def example_learner_def upt_rec)

text \<open>
  C3. When the number of input arrays differs from the number of input names, in either
  direction, the pairs are positional and stop at the shorter of the two sequences:
  \<open>set_input\<close> is called for the positions below the minimum of the two lengths, and
  \<open>run()\<close> follows. \<open>_predict_array\<close> raises nothing of its own for the mismatch: when none
  of these \<open>set_input\<close> calls raises, its result is what \<open>run()\<close> answers, the generator
  when \<open>run()\<close> returns and the exception of \<open>run()\<close> otherwise.
\<close>

theorem predict_array_truncates:
  assumes "length input_arrays \<noteq> length (input_names self)"
    and "accepts T (graph_executor_module self)
           (map (\<lambda>i. SetInput (input_names self ! i) (input_arrays ! i))
              [0..<min (length (input_names self)) (length input_arrays)])"
  shows "calls (graph_executor_module (snd (predict_array T self input_arrays))) =
           calls (graph_executor_module self)
           @ map (\<lambda>i. SetInput (input_names self ! i) (input_arrays ! i))
               [0..<min (length (input_names self)) (length input_arrays)]
           @ [Run]
       \<and> fst (predict_array T self input_arrays) =
           (case call_fault T ((graph_executor_module self)
                   \<lparr>calls := calls (graph_executor_module self)
                      @ map (\<lambda>i. SetInput (input_names self ! i) (input_arrays ! i))
                          [0..<min (length (input_names self)) (length input_arrays)]\<rparr>) Run of
              None \<Rightarrow> Inr (enumerate 0 (output_sizes (network_parameters self)))
            | Some e \<Rightarrow> Inl e)"
proof -
  have s: "map (\<lambda>(n, a). SetInput n a) (zip (input_names self) input_arrays)
         = map (\<lambda>i. SetInput (input_names self ! i) (input_arrays ! i))
             [0..<min (length (input_names self)) (length input_arrays)]"
    by (rule set_calls_by_index)
  have "accepts T (graph_executor_module self)
          (map (\<lambda>(n, a). SetInput n a) (zip (input_names self) input_arrays))"
    using assms(2) by (simp only: s)
  from predict_array_after_inputs[OF this] show ?thesis
    by (simp only: s fst_conv snd_conv) simp
qed

theorem predict_array_truncates_witness:
  "length [NDArray [2, 3] 5, NDArray [2, 3] 7, NDArray [2, 3] (9::nat)]
     \<noteq> length (input_names example_learner)
   \<and> length [NDArray [2, 3] (5::nat)] \<noteq> length (input_names example_learner)
   \<and> accepts example_tvm (graph_executor_module example_learner)
       [SetInput ''input_0'' (NDArray [2, 3] 5), SetInput ''input_1'' (NDArray [2, 3] 7)]
   \<and> accepts example_tvm (graph_executor_module example_learner)
       [SetInput ''input_0'' (NDArray [2, 3] 5)]
   \<and> calls (graph_executor_module (snd (predict_array example_tvm example_learner
           [NDArray [2, 3] 5, NDArray [2, 3] 7, NDArray [2, 3] 9]))) =
       [SetInput ''input_0'' (NDArray [2, 3] 5), SetInput ''input_1'' (NDArray [2, 3] 7), Run]
   \<and> fst (predict_array example_tvm example_learner
           [NDArray [2, 3] 5, NDArray [2, 3] 7, NDArray [2, 3] 9]) = Inr [(0, [10])]
   \<and> calls (graph_executor_module (snd (predict_array example_tvm example_learner
           [NDArray [2, 3] 5]))) =
       [SetInput ''input_0'' (NDArray [2, 3] 5), Run]
   \<and> fst (predict_array example_tvm example_learner [NDArray [2, 3] 5]) = Inr [(0, [10])]"
  using predict_array_truncates
          [where input_arrays = "[NDArray [2, 3] 5, NDArray [2, 3] 7, NDArray [2, 3] 9]"
             and self = example_learner and T = example_tvm]
        predict_array_truncates
          [where input_arrays = "[NDArray [2, 3] 5]" and self = example_learner
             and T = example_tvm]
  by (simp add: example_tvm_def example_learner_def upt_rec)

subsection \<open>Device normalisation and the empty call\<close>

text \<open>
  C4. \<open>_convert_device\<close> maps every device identity that is an \<open>int\<close> for
  \<open>isinstance\<close>, the index \<open>0\<close> among them, to the string \<open>"cpu"\<close>, and returns every
  other identity unchanged.
\<close>

theorem convert_device_int_to_cpu:
  "(isinstance_int device \<longrightarrow> convert_device device = PyStr ''cpu'')
   \<and> (\<not> isinstance_int device \<longrightarrow> convert_device device = device)
   \<and> convert_device (PyInt 0) = PyStr ''cpu''
   \<and> convert_device (PyInt n) = PyStr ''cpu''"
  by (simp add: convert_device_def)

theorem convert_device_int_to_cpu_witness:
  "isinstance_int (PyInt 3) \<and> convert_device (PyInt 3) = PyStr ''cpu''
   \<and> \<not> isinstance_int (PyStr ''cuda:0'') \<and> convert_device (PyStr ''cuda:0'') = PyStr ''cuda:0''"
  using convert_device_int_to_cpu [of "PyInt 3" 3] convert_device_int_to_cpu [of "PyStr ''cuda:0''" 0]
  by simp

text \<open>
  C9. The PyTorch variant's \<open>predict\<close> on no input tensor raises \<open>IndexError\<close>, and the
  handle with its executor is as before: nothing was called on the runtime.
\<close>

theorem predict_no_inputs_fails:
  "predict T P self [] = (Inl IndexError, self)"
  by (simp add: predict_def)

subsection \<open>The outputs\<close>

lemma nd_empty_ok:
  assumes "0 \<le> b" and "\<forall>d\<in>set s. 0 \<le> d" and "alloc_fault T (b # s) = None"
  shows "nd_empty T (b # s) = Inr (NdEmpty (b # s))"
  using assms by (auto simp: nd_empty_def list_ex_iff)

lemma fetch_outputs_accepted:
  assumes "0 \<le> b"
    and "\<forall>(i, s)\<in>set gen. (\<forall>d\<in>set s. 0 \<le> d) \<and> alloc_fault T (b # s) = None"
    and "accepts T g (map (\<lambda>(i, s). GetOutput i (NdEmpty (b # s))) gen)"
  shows "\<exists>outs. fetch_outputs T b gen g =
           (Inr outs, g\<lparr>calls := calls g @ map (\<lambda>(i, s). GetOutput i (NdEmpty (b # s))) gen\<rparr>)
         \<and> map shape outs = map (\<lambda>(i, s). b # s) gen"
  using assms(2,3)
proof (induction gen arbitrary: g)
  case Nil
  then show ?case by simp
next
  case (Cons p gen)
  obtain i s where p: "p = (i, s)" by (cases p)
  let ?g' = "g\<lparr>calls := calls g @ [GetOutput i (NdEmpty (b # s))]\<rparr>"
  have e: "nd_empty T (b # s) = Inr (NdEmpty (b # s))"
    using Cons.prems(1) assms(1) by (intro nd_empty_ok) (simp_all add: p)
  have f: "call_fault T g (GetOutput i (NdEmpty (b # s))) = None"
    and a: "accepts T ?g' (map (\<lambda>(i, s). GetOutput i (NdEmpty (b # s))) gen)"
    using Cons.prems(2) by (simp_all add: p)
  have r: "\<forall>(i, s)\<in>set gen. (\<forall>d\<in>set s. 0 \<le> d) \<and> alloc_fault T (b # s) = None"
    using Cons.prems(1) by simp
  from Cons.IH[OF r a] obtain outs where
    "fetch_outputs T b gen ?g' =
       (Inr outs, ?g'\<lparr>calls := calls ?g' @ map (\<lambda>(i, s). GetOutput i (NdEmpty (b # s))) gen\<rparr>)"
    "map shape outs = map (\<lambda>(i, s). b # s) gen" by blast
  then show ?case
    by (simp add: p e f get_output_def invoke_def)
qed

lemma tvm_outputs_accepted:
  assumes "0 \<le> batch_size (network_parameters self)"
    and "\<forall>s\<in>set sizes. (\<forall>d\<in>set s. 0 \<le> d)
           \<and> alloc_fault T (batch_size (network_parameters self) # s) = None"
    and "accepts T (graph_executor_module self)
           (map (\<lambda>i. GetOutput i (NdEmpty (batch_size (network_parameters self) # sizes ! i)))
              [0..<length sizes])"
  shows "\<exists>outs. tvm_outputs T self (enumerate 0 sizes) =
           (Inr outs, self\<lparr>graph_executor_module := (graph_executor_module self)
              \<lparr>calls := calls (graph_executor_module self)
                 @ map (\<lambda>i. GetOutput i (NdEmpty (batch_size (network_parameters self) # sizes ! i)))
                     [0..<length sizes]\<rparr>\<rparr>)
         \<and> map shape outs = map (\<lambda>s. batch_size (network_parameters self) # s) sizes"
proof -
  let ?b = "batch_size (network_parameters self)"
  have c: "map (\<lambda>(i, s). GetOutput i (NdEmpty (?b # s))) (enumerate 0 sizes)
         = map (\<lambda>i. GetOutput i (NdEmpty (?b # sizes ! i))) [0..<length sizes]"
    by (simp add: map_enumerate_by_index)
  have h: "\<forall>(i, s)\<in>set (enumerate 0 sizes). (\<forall>d\<in>set s. 0 \<le> d) \<and> alloc_fault T (?b # s) = None"
    using assms(2) by (auto simp: in_set_enumerate_eq)
  have a: "accepts T (graph_executor_module self)
             (map (\<lambda>(i, s). GetOutput i (NdEmpty (?b # s))) (enumerate 0 sizes))"
    using assms(3) by (simp only: c)
  from fetch_outputs_accepted[OF assms(1) h a]
  obtain outs where
    f: "fetch_outputs T ?b (enumerate 0 sizes) (graph_executor_module self) =
        (Inr outs, (graph_executor_module self)\<lparr>calls := calls (graph_executor_module self)
           @ map (\<lambda>(i, s). GetOutput i (NdEmpty (?b # s))) (enumerate 0 sizes)\<rparr>)"
    and s: "map shape outs = map (\<lambda>(i, s). ?b # s) (enumerate 0 sizes)"
    by blast
  have "map (\<lambda>(i, s). ?b # s) (enumerate 0 sizes) = map (\<lambda>s. ?b # s) sizes"
    by (rule nth_equalityI) (simp_all add: nth_enumerate_eq)
  with f s show ?thesis
    by (simp add: tvm_outputs_def c)
qed

lemma predict_sequence_accepted:
  fixes self :: "('l, 'd) ApacheTVMInferenceLearner" and input_arrays :: "'d ndarray list"
  defines "sets \<equiv> map (\<lambda>i. SetInput (input_names self ! i) (input_arrays ! i))
            [0..<min (length (input_names self)) (length input_arrays)]"
    and "gets \<equiv> map (\<lambda>i. GetOutput i
                 (NdEmpty (batch_size (network_parameters self)
                           # output_sizes (network_parameters self) ! i)))
            [0..<length (output_sizes (network_parameters self))]"
  assumes "0 \<le> batch_size (network_parameters self)"
    and "\<forall>s\<in>set (output_sizes (network_parameters self)). (\<forall>d\<in>set s. 0 \<le> d)
           \<and> alloc_fault T (batch_size (network_parameters self) # s) = None"
    and "accepts T (graph_executor_module self) (sets @ [Run] @ gets)"
  shows "\<exists>outs.
      predict_array T self input_arrays =
        (Inr (enumerate 0 (output_sizes (network_parameters self))),
         self\<lparr>graph_executor_module := (graph_executor_module self)
            \<lparr>calls := calls (graph_executor_module self) @ sets @ [Run]\<rparr>\<rparr>)
    \<and> tvm_outputs T
        (self\<lparr>graph_executor_module := (graph_executor_module self)
            \<lparr>calls := calls (graph_executor_module self) @ sets @ [Run]\<rparr>\<rparr>)
        (enumerate 0 (output_sizes (network_parameters self))) =
        (Inr outs,
         self\<lparr>graph_executor_module := (graph_executor_module self)
            \<lparr>calls := calls (graph_executor_module self) @ sets @ [Run] @ gets\<rparr>\<rparr>)
    \<and> map shape outs =
        map (\<lambda>s. batch_size (network_parameters self) # s) (output_sizes (network_parameters self))"
proof -
  let ?g = "graph_executor_module self"
  let ?g1 = "?g\<lparr>calls := calls ?g @ sets\<rparr>"
  let ?g2 = "?g\<lparr>calls := calls ?g @ sets @ [Run]\<rparr>"
  let ?self' = "self\<lparr>graph_executor_module := ?g2\<rparr>"
  have s: "map (\<lambda>(n, a). SetInput n a) (zip (input_names self) input_arrays) = sets"
    unfolding sets_def by (rule set_calls_by_index)
  from assms(5) have a1: "accepts T ?g sets" and a2: "accepts T ?g1 ([Run] @ gets)"
    by (simp_all only: accepts_append) 
  from a2 have r: "call_fault T ?g1 Run = None" and a3: "accepts T ?g2 gets"
    by simp_all
  have "accepts T ?g (map (\<lambda>(n, a). SetInput n a) (zip (input_names self) input_arrays))"
    using a1 by (simp only: s)
  from predict_array_after_inputs[OF this]
  have p: "predict_array T self input_arrays =
        (Inr (enumerate 0 (output_sizes (network_parameters self))), ?self')"
    by (simp only: s) (simp add: r)
  have b: "0 \<le> batch_size (network_parameters ?self')" using assms(3) by simp
  have h: "\<forall>s\<in>set (output_sizes (network_parameters self)). (\<forall>d\<in>set s. 0 \<le> d)
           \<and> alloc_fault T (batch_size (network_parameters ?self') # s) = None"
    using assms(4) by simp
  have a4: "accepts T (graph_executor_module ?self')
           (map (\<lambda>i. GetOutput i (NdEmpty (batch_size (network_parameters ?self')
               # output_sizes (network_parameters self) ! i)))
              [0..<length (output_sizes (network_parameters self))])"
    using a3 by (simp add: gets_def)
  from tvm_outputs_accepted[OF b h a4] obtain outs where
    "tvm_outputs T ?self' (enumerate 0 (output_sizes (network_parameters self))) =
           (Inr outs, ?self'\<lparr>graph_executor_module := (graph_executor_module ?self')
              \<lparr>calls := calls (graph_executor_module ?self')
                 @ map (\<lambda>i. GetOutput i (NdEmpty (batch_size (network_parameters ?self')
                      # output_sizes (network_parameters self) ! i)))
                     [0..<length (output_sizes (network_parameters self))]\<rparr>\<rparr>)"
    "map shape outs = map (\<lambda>s. batch_size (network_parameters ?self') # s)
       (output_sizes (network_parameters self))"
    by blast
  with p show ?thesis
    by (simp add: gets_def)
qed



text \<open>
  C6. The PyTorch variant's \<open>predict\<close> on a non-empty sequence of tensors, when the batch
  size and the dimensions in \<open>output_sizes\<close> are not negative and the runtime raises on
  none of the allocations and calls made: the device is \<open>_convert_device\<close> of the first
  tensor's \<open>get_device()\<close>; the array bound to the \<open>i\<close>-th input name is the \<open>i\<close>-th tensor
  after \<open>cpu()\<close>, \<open>detach()\<close> and then \<open>numpy()\<close>; and the result is, in the order in which
  the predict sequence yields them, each output array after \<open>torch.from_numpy\<close> and
  \<open>to(device)\<close>.
\<close>

theorem pytorch_predict_marshalling:
  assumes "input_tensors \<noteq> []"
    and "0 \<le> batch_size (network_parameters self)"
    and "\<forall>output_size\<in>set (output_sizes (network_parameters self)).
           (\<forall>d\<in>set output_size. 0 \<le> d)
           \<and> alloc_fault T (batch_size (network_parameters self) # output_size) = None"
    and "accepts T (graph_executor_module self)
           (map (\<lambda>i. SetInput (input_names self ! i)
                   (torch_numpy P (torch_detach P (torch_cpu P (input_tensors ! i)))))
              [0..<min (length (input_names self)) (length input_tensors)]
            @ [Run]
            @ map (\<lambda>i. GetOutput i
                 (NdEmpty (batch_size (network_parameters self)
                           # output_sizes (network_parameters self) ! i)))
              [0..<length (output_sizes (network_parameters self))])"
  shows "\<exists>gen self' arrays self''.
      predict_array T self
        (map (\<lambda>t. torch_numpy P (torch_detach P (torch_cpu P t))) input_tensors) = (Inr gen, self')
    \<and> tvm_outputs T self' gen = (Inr arrays, self'')
    \<and> predict T P self input_tensors =
        (Inr (map (\<lambda>a. torch_to P (torch_from_numpy P a)
                     (convert_device (torch_get_device P (hd input_tensors)))) arrays),
         self'')
    \<and> calls (graph_executor_module self'') =
        calls (graph_executor_module self)
        @ map (\<lambda>i. SetInput (input_names self ! i)
                 (torch_numpy P (torch_detach P (torch_cpu P (input_tensors ! i)))))
            [0..<min (length (input_names self)) (length input_tensors)]
        @ [Run]
        @ map (\<lambda>i. GetOutput i
                 (NdEmpty (batch_size (network_parameters self)
                           # output_sizes (network_parameters self) ! i)))
            [0..<length (output_sizes (network_parameters self))]"
proof -
  let ?arrays = "map (\<lambda>t. torch_numpy P (torch_detach P (torch_cpu P t))) input_tensors"
  let ?sets = "map (\<lambda>i. SetInput (input_names self ! i)
                   (torch_numpy P (torch_detach P (torch_cpu P (input_tensors ! i)))))
              [0..<min (length (input_names self)) (length input_tensors)]"
  let ?gets = "map (\<lambda>i. GetOutput i
                 (NdEmpty (batch_size (network_parameters self)
                           # output_sizes (network_parameters self) ! i)))
              [0..<length (output_sizes (network_parameters self))]"
  have e: "map (\<lambda>i. SetInput (input_names self ! i) (?arrays ! i))
              [0..<min (length (input_names self)) (length ?arrays)] = ?sets"
    by simp
  have a: "accepts T (graph_executor_module self)
           (map (\<lambda>i. SetInput (input_names self ! i) (?arrays ! i))
              [0..<min (length (input_names self)) (length ?arrays)] @ [Run] @ ?gets)"
    using assms(4) by (simp only: e)
  from predict_sequence_accepted[OF assms(2,3) a] obtain outs where
    p: "predict_array T self ?arrays =
        (Inr (enumerate 0 (output_sizes (network_parameters self))),
         self\<lparr>graph_executor_module := (graph_executor_module self)
            \<lparr>calls := calls (graph_executor_module self) @ ?sets @ [Run]\<rparr>\<rparr>)"
    and t: "tvm_outputs T
        (self\<lparr>graph_executor_module := (graph_executor_module self)
            \<lparr>calls := calls (graph_executor_module self) @ ?sets @ [Run]\<rparr>\<rparr>)
        (enumerate 0 (output_sizes (network_parameters self))) =
        (Inr outs,
         self\<lparr>graph_executor_module := (graph_executor_module self)
            \<lparr>calls := calls (graph_executor_module self) @ ?sets @ [Run] @ ?gets\<rparr>\<rparr>)"
    unfolding e by blast
  obtain first rest where ts: "input_tensors = first # rest"
    using assms(1) by (cases input_tensors) auto
  have pr: "predict T P self input_tensors =
        (Inr (map (\<lambda>a. torch_to P (torch_from_numpy P a)
                     (convert_device (torch_get_device P (hd input_tensors)))) outs),
         self\<lparr>graph_executor_module := (graph_executor_module self)
            \<lparr>calls := calls (graph_executor_module self) @ ?sets @ [Run] @ ?gets\<rparr>\<rparr>)"
    unfolding predict_def Let_def
    using p t by (simp add: ts)
  show ?thesis
    using p t pr by simp
qed

theorem pytorch_predict_marshalling_witness:
  "example_tensors \<noteq> []
   \<and> alloc_fault example_tvm [2, 10] = None
   \<and> accepts example_tvm (graph_executor_module example_learner)
       [SetInput ''input_0'' (NDArray [2, 3] 5), SetInput ''input_1'' (NDArray [2, 3] 7), Run,
        GetOutput 0 (NdEmpty [2, 10])]
   \<and> (\<exists>self''.
         predict example_tvm example_torch example_learner example_tensors =
           (Inr [\<lparr>t_array = NDArray [2, 10] 12, t_device = PyStr ''cpu'', t_grad = False\<rparr>], self'')
         \<and> calls (graph_executor_module self'') =
             [SetInput ''input_0'' (NDArray [2, 3] 5), SetInput ''input_1'' (NDArray [2, 3] 7), Run,
              GetOutput 0 (NdEmpty [2, 10])])"
proof -
  have ne: "example_tensors \<noteq> []"
    by (simp add: example_tensors_def)
  have b: "0 \<le> batch_size (network_parameters example_learner)"
    by (simp add: example_learner_def)
  have h: "\<forall>output_size\<in>set (output_sizes (network_parameters example_learner)).
           (\<forall>d\<in>set output_size. 0 \<le> d)
           \<and> alloc_fault example_tvm
                (batch_size (network_parameters example_learner) # output_size) = None"
    by (simp add: example_learner_def example_tvm_def)
  have a: "accepts example_tvm (graph_executor_module example_learner)
       [SetInput ''input_0'' (NDArray [2, 3] 5), SetInput ''input_1'' (NDArray [2, 3] 7), Run,
        GetOutput 0 (NdEmpty [2, 10])]"
    by (simp add: example_tvm_def)
  have a': "accepts example_tvm (graph_executor_module example_learner)
           (map (\<lambda>i. SetInput (input_names example_learner ! i)
                   (torch_numpy example_torch (torch_detach example_torch
                      (torch_cpu example_torch (example_tensors ! i)))))
              [0..<min (length (input_names example_learner)) (length example_tensors)]
            @ [Run]
            @ map (\<lambda>i. GetOutput i
                 (NdEmpty (batch_size (network_parameters example_learner)
                           # output_sizes (network_parameters example_learner) ! i)))
              [0..<length (output_sizes (network_parameters example_learner))])"
    using a by (simp add: example_learner_def example_tensors_def example_torch_def upt_rec)
  from pytorch_predict_marshalling
         [where input_tensors = example_tensors and T = example_tvm and P = example_torch
            and self = example_learner, OF ne b h a']
  obtain gen self' arrays self'' where
    "predict_array example_tvm example_learner
        (map (\<lambda>t. torch_numpy example_torch (torch_detach example_torch
           (torch_cpu example_torch t))) example_tensors) = (Inr gen, self')"
    and "tvm_outputs example_tvm self' gen = (Inr arrays, self'')"
    and r: "predict example_tvm example_torch example_learner example_tensors =
        (Inr (map (\<lambda>a. torch_to example_torch (torch_from_numpy example_torch a)
                     (convert_device (torch_get_device example_torch (hd example_tensors)))) arrays),
         self'')"
    and c: "calls (graph_executor_module self'') =
        calls (graph_executor_module example_learner)
        @ map (\<lambda>i. SetInput (input_names example_learner ! i)
                 (torch_numpy example_torch (torch_detach example_torch
                    (torch_cpu example_torch (example_tensors ! i)))))
            [0..<min (length (input_names example_learner)) (length example_tensors)]
        @ [Run]
        @ map (\<lambda>i. GetOutput i
                 (NdEmpty (batch_size (network_parameters example_learner)
                           # output_sizes (network_parameters example_learner) ! i)))
            [0..<length (output_sizes (network_parameters example_learner))]"
    by blast
  have e: "fst (predict example_tvm example_torch example_learner example_tensors) =
             Inr [\<lparr>t_array = NDArray [2, 10] 12, t_device = PyStr ''cpu'', t_grad = False\<rparr>]"
    by (simp add: predict_def predict_array_def tvm_outputs_def set_input_def run_def
        get_output_def invoke_def nd_empty_def example_tvm_def example_torch_def
        example_learner_def example_tensors_def example_output_def inputs_at_run_def
        input_value_def convert_device_def)
  have c': "calls (graph_executor_module self'') =
             [SetInput ''input_0'' (NDArray [2, 3] 5), SetInput ''input_1'' (NDArray [2, 3] 7), Run,
              GetOutput 0 (NdEmpty [2, 10])]"
    using c by (simp add: example_torch_def example_learner_def example_tensors_def upt_rec)
  have "predict example_tvm example_torch example_learner example_tensors =
           (Inr [\<lparr>t_array = NDArray [2, 10] 12, t_device = PyStr ''cpu'', t_grad = False\<rparr>], self'')"
    using r e by simp
  moreover have "alloc_fault example_tvm [2, 10] = None"
    by (simp add: example_tvm_def)
  ultimately show ?thesis using c' ne a by blast
qed

subsection \<open>Construction and dispatch\<close>

text \<open>
  C10. \<open>from_runtime_module\<close> resolves the device as \<open>tvm.device(target_device, 0)\<close>, with
  index 0 whatever the target string is. When this resolution and the instantiation of the
  executor do not raise, it returns a handle whose \<open>network_parameters\<close>, \<open>lib\<close>,
  \<open>input_names\<close> and \<open>target\<close> are the arguments, unchanged, and whose executor is a new one
  built from \<open>lib\<close> on that device.
\<close>

theorem from_runtime_module_fields:
  assumes "device_fault T target_device 0 = None"
    and "create_fault T lib' (Device target_device 0) = None"
  shows "\<exists>self. from_runtime_module T network_parameters' lib' target_device input_names' = Inr self
     \<and> network_parameters self = network_parameters'
     \<and> lib self = lib'
     \<and> input_names self = input_names'
     \<and> target self = target_device
     \<and> graph_executor_module self = \<lparr>gm_lib = lib', gm_dev = Device target_device 0, calls = []\<rparr>"
  using assms
  by (simp add: from_runtime_module_def tvm_device_def new_GraphModule_def)

theorem from_runtime_module_fields_witness:
  "device_fault example_tvm ''cuda'' 0 = None
   \<and> create_fault example_tvm ''lib'' (Device ''cuda'' 0) = None
   \<and> (\<exists>self. from_runtime_module example_tvm \<lparr>batch_size = 2, output_sizes = [[10]]\<rparr> ''lib''
                 ''cuda'' [''input_0'', ''input_1''] = Inr self
         \<and> network_parameters self = \<lparr>batch_size = 2, output_sizes = [[10]]\<rparr>
         \<and> lib self = ''lib''
         \<and> input_names self = [''input_0'', ''input_1'']
         \<and> target self = ''cuda''
         \<and> graph_executor_module self = \<lparr>gm_lib = ''lib'', gm_dev = Device ''cuda'' 0, calls = []\<rparr>)"
  using from_runtime_module_fields
          [where T = example_tvm and target_device = "''cuda''" and lib' = "''lib''"
             and network_parameters' = "\<lparr>batch_size = 2, output_sizes = [[10]]\<rparr>"
             and input_names' = "[''input_0'', ''input_1'']"]
  by (simp add: example_tvm_def)

text \<open>
  C8, as stated, fails: the table is a plain dict, and subscripting it with an identity that
  is not one of its keys raises Python's \<open>KeyError\<close>, not an \<open>UnsupportedFrameworkError\<close>.
\<close>

theorem dispatch_unknown_counterexample:
  "map_of TVM_INFERENCE_LEARNERS (OTHER ''numpy'') = None
   \<and> getitem TVM_INFERENCE_LEARNERS (OTHER ''numpy'') = Inl KeyError
   \<and> getitem TVM_INFERENCE_LEARNERS (OTHER ''numpy'') \<noteq> Inl (Foreign ''UnsupportedFrameworkError'')"
  by (simp add: getitem_def TVM_INFERENCE_LEARNERS_def)

text \<open>
  C8, amended. The table has exactly two entries, the PyTorch variant under \<open>PYTORCH\<close> and
  the TensorFlow variant under \<open>TENSORFLOW\<close>; subscripting it with any other identity raises
  \<open>KeyError\<close>.
\<close>

theorem dispatch_unknown_key_error:
  "(key \<noteq> PYTORCH \<and> key \<noteq> TENSORFLOW
      \<longrightarrow> getitem TVM_INFERENCE_LEARNERS key = Inl KeyError)
   \<and> getitem TVM_INFERENCE_LEARNERS PYTORCH = Inr PytorchApacheTVMInferenceLearner
   \<and> getitem TVM_INFERENCE_LEARNERS TENSORFLOW = Inr TensorflowApacheTVMInferenceLearner"
  by (simp add: getitem_def TVM_INFERENCE_LEARNERS_def)

theorem dispatch_unknown_key_error_witness:
  "OTHER ''onnx'' \<noteq> PYTORCH \<and> OTHER ''onnx'' \<noteq> TENSORFLOW
   \<and> getitem TVM_INFERENCE_LEARNERS (OTHER ''onnx'') = Inl KeyError"
  using dispatch_unknown_key_error [where key = "OTHER ''onnx''"] by simp

subsection \<open>Loading without the engine file\<close>

text \<open>
  C7, as stated, fails: in a directory that holds the metadata record and no engine file,
  \<open>load\<close> fails with the exception of the runtime's module loader, here a \<open>ValueError\<close>.
  The source has no exception of its own and translates none.
\<close>

theorem load_missing_engine_counterexample:
  "library_files example_storage (truediv (Path ''model'') (engine_filename example_tvm)) = None
   \<and> load example_tvm ''model'' example_storage = Inl (Foreign ''ValueError'')
   \<and> load example_tvm ''model'' example_storage \<noteq> Inl (Foreign ''ArtifactNotFoundError'')"
  by (simp add: load_def Let_def LearnerMetadata_read_def load_module_def example_storage_def
      example_tvm_def)

text \<open>
  C7, amended. \<open>load\<close> on a directory without the engine file fails; when the metadata
  record was read and \<open>ModelParams\<close> rebuilt from its entry \<open>network_parameters\<close>, so that
  the loader is reached, the exception is the one that the runtime's module loader raises
  for the missing file, as it is.
\<close>

theorem load_missing_engine_propagates:
  assumes "library_files fs (truediv (Path path) (engine_filename T)) = None"
  shows "(\<exists>e. load T path fs = Inl e)
       \<and> (\<forall>metadata stored params.
            metadata_files fs (Path path) = Some metadata
            \<and> md_network_parameters metadata = Some stored
            \<and> new_ModelParams stored = Inr params
            \<longrightarrow> load T path fs = Inl (load_fault T (truediv (Path path) (engine_filename T))))"
  using assms
  by (auto simp: load_def Let_def LearnerMetadata_read_def load_module_def
      split: option.splits sum.splits)

theorem load_missing_engine_propagates_witness:
  "library_files example_storage (truediv (Path ''model'') (engine_filename example_tvm)) = None
   \<and> metadata_files example_storage (Path ''model'') =
       Some \<lparr>md_network_parameters = Some (ParamsDict \<lparr>batch_size = 2, output_sizes = [[10]]\<rparr>),
             md_input_names = Some [''input_0'', ''input_1''],
             md_target = Some ''llvm'',
             md_extra = []\<rparr>
   \<and> new_ModelParams (ParamsDict \<lparr>batch_size = 2, output_sizes = [[10]]\<rparr>)
       = Inr \<lparr>batch_size = 2, output_sizes = [[10]]\<rparr>
   \<and> load example_tvm ''model'' example_storage
       = Inl (load_fault example_tvm (truediv (Path ''model'') (engine_filename example_tvm)))"
proof -
  have m: "library_files example_storage
             (truediv (Path ''model'') (engine_filename example_tvm)) = None"
    by (simp add: example_storage_def)
  have s: "metadata_files example_storage (Path ''model'') =
       Some \<lparr>md_network_parameters = Some (ParamsDict \<lparr>batch_size = 2, output_sizes = [[10]]\<rparr>),
             md_input_names = Some [''input_0'', ''input_1''],
             md_target = Some ''llvm'',
             md_extra = []\<rparr>"
    by (simp add: example_storage_def)
  from load_missing_engine_propagates
         [where fs = example_storage and path = "''model''" and T = example_tvm, OF m] s
  have "load example_tvm ''model'' example_storage
       = Inl (load_fault example_tvm (truediv (Path ''model'') (engine_filename example_tvm)))"
    by simp
  with m s show ?thesis by simp
qed

subsection \<open>The round trip through save and load\<close>





















text \<open>
  The invariant holds of a handle as \<open>from_runtime_module\<close> returns it, and \<open>predict\<close> keeps it.
\<close>

lemma set_inputs_invariant:
  assumes "set_inputs T ps g = (r, g')"
    and "list_all Q (calls g)" and "\<forall>(n, a)\<in>set ps. Q (SetInput n a)"
  shows "list_all Q (calls g') \<and> gm_lib g' = gm_lib g \<and> gm_dev g' = gm_dev g"
  using assms
proof (induction ps arbitrary: g)
  case Nil
  then show ?case by auto
next
  case (Cons p ps)
  obtain n a where p: "p = (n, a)" by (cases p)
  let ?g = "g\<lparr>calls := calls g @ [SetInput n a]\<rparr>"
  have q: "list_all Q (calls ?g)" using Cons.prems by (simp add: p)
  have ps: "\<forall>(n, a)\<in>set ps. Q (SetInput n a)" using Cons.prems by simp
  show ?case
  proof (cases "call_fault T g (SetInput n a)")
    case None
    with Cons.prems(1) have "set_inputs T ps ?g = (r, g')"
      by (simp add: p set_input_def invoke_def)
    from Cons.IH[OF this q ps] show ?thesis by simp
  next
    case (Some e)
    with Cons.prems(1) have "g' = ?g"
      by (simp add: p set_input_def invoke_def)
    with q show ?thesis by simp
  qed
qed

lemma fetch_outputs_invariant:
  assumes "fetch_outputs T b gen g = (r, g')"
    and "list_all Q (calls g)" and "\<And>i out. Q (GetOutput i out)"
  shows "list_all Q (calls g') \<and> gm_lib g' = gm_lib g \<and> gm_dev g' = gm_dev g"
  using assms(1,2)
proof (induction gen arbitrary: g r)
  case Nil
  then show ?case by auto
next
  case (Cons p gen)
  obtain i s where p: "p = (i, s)" by (cases p)
  show ?case
  proof (cases "nd_empty T (b # s)")
    case (Inl e)
    with Cons.prems show ?thesis by (simp add: p)
  next
    case (Inr buffer)
    let ?g = "g\<lparr>calls := calls g @ [GetOutput i buffer]\<rparr>"
    have q: "list_all Q (calls ?g)" using Cons.prems assms(3) by simp
    show ?thesis
    proof (cases "call_fault T g (GetOutput i buffer)")
      case None
      obtain r1 g1 where f: "fetch_outputs T b gen ?g = (r1, g1)"
        by (cases "fetch_outputs T b gen ?g")
      with None Inr Cons.prems(1) have "g1 = g'"
        by (cases r1) (simp_all add: p get_output_def invoke_def)
      with f have "fetch_outputs T b gen ?g = (r1, g')" by simp
      from Cons.IH[OF this q] show ?thesis by simp
    next
      case (Some e)
      with Inr Cons.prems(1) have "g' = ?g"
        by (simp add: p get_output_def invoke_def)
      with q show ?thesis by simp
    qed
  qed
qed

lemma names_known_mono:
  assumes "names_known (take k names) c" and "k \<le> k'"
  shows "names_known (take k' names) c"
  using assms set_take_subset_set_take[of k k' names] by (cases c) auto

lemma own_executor_mono:
  assumes "own_executor self k" and "k \<le> k'"
  shows "own_executor self k'"
  using assms by (auto simp: own_executor_def list_all_iff intro: names_known_mono)

lemma predict_array_own_executor:
  assumes "predict_array T self arrays = (r, self')" and "own_executor self k"
  shows "own_executor self' (max k (length arrays))"
proof -
  let ?k = "max k (length arrays)"
  let ?ps = "zip (input_names self) arrays"
  let ?g = "graph_executor_module self"
  have o: "own_executor self ?k" by (rule own_executor_mono[OF assms(2)]) simp
  obtain r1 g1 where s: "set_inputs T ?ps ?g = (r1, g1)" by (cases "set_inputs T ?ps ?g")
  have "map fst ?ps = take (length arrays) (input_names self)"
    by (simp add: map_fst_zip_take min_def)
  then have "fst ` set ?ps \<subseteq> set (take ?k (input_names self))"
    using set_take_subset_set_take[of "length arrays" ?k "input_names self"]
    by (metis max.cobounded2 set_map)
  then have "\<forall>(n, a)\<in>set ?ps. names_known (take ?k (input_names self)) (SetInput n a)"
    by force
  with o have g1: "list_all (names_known (take ?k (input_names self))) (calls g1)
       \<and> gm_lib g1 = gm_lib ?g \<and> gm_dev g1 = gm_dev ?g"
    by (intro set_inputs_invariant[OF s]) (simp_all add: own_executor_def)
  show ?thesis
  proof (cases r1)
    case (Inl e)
    with s assms(1) have "self' = self\<lparr>graph_executor_module := g1\<rparr>"
      by (simp add: predict_array_def)
    with g1 o show ?thesis by (simp add: own_executor_def)
  next
    case (Inr u)
    with s assms(1) have "self' = self\<lparr>graph_executor_module := g1\<lparr>calls := calls g1 @ [Run]\<rparr>\<rparr>"
      by (auto simp: predict_array_def run_def invoke_def split: option.splits)
    with g1 o show ?thesis by (simp add: own_executor_def)
  qed
qed

lemma tvm_outputs_own_executor:
  assumes "tvm_outputs T self gen = (r, self')" and "own_executor self k"
  shows "own_executor self' k"
proof -
  obtain r1 g1 where f: "fetch_outputs T (batch_size (network_parameters self)) gen
             (graph_executor_module self) = (r1, g1)"
    by (cases "fetch_outputs T (batch_size (network_parameters self)) gen
             (graph_executor_module self)")
  have "list_all (names_known (take k (input_names self))) (calls g1)
       \<and> gm_lib g1 = gm_lib (graph_executor_module self)
       \<and> gm_dev g1 = gm_dev (graph_executor_module self)"
    using assms(2) by (intro fetch_outputs_invariant[OF f]) (simp_all add: own_executor_def)
  moreover from f assms(1) have "self' = self\<lparr>graph_executor_module := g1\<rparr>"
    by (simp add: tvm_outputs_def)
  ultimately show ?thesis using assms(2) by (simp add: own_executor_def)
qed

lemma predict_own_executor:
  assumes "own_executor self k"
  shows "own_executor (snd (predict T P self input_tensors)) (max k (length input_tensors))"
proof (cases input_tensors)
  case Nil
  with assms show ?thesis by (simp add: predict_def)
next
  case (Cons first rest)
  let ?arrays = "map (\<lambda>t. torch_numpy P (torch_detach P (torch_cpu P t))) input_tensors"
  obtain r s where pa: "predict_array T self ?arrays = (r, s)"
    by (cases "predict_array T self ?arrays")
  have s: "own_executor s (max k (length input_tensors))"
    using predict_array_own_executor[OF pa assms] by simp
  show ?thesis
  proof (cases r)
    case (Inl e)
    with s pa Cons show ?thesis by (simp add: predict_def)
  next
    case (Inr gen)
    obtain r' s' where t: "tvm_outputs T s gen = (r', s')" by (cases "tvm_outputs T s gen")
    have "own_executor s' (max k (length input_tensors))"
      by (rule tvm_outputs_own_executor[OF t s])
    with pa Inr t Cons show ?thesis
      by (cases r') (simp_all add: predict_def)
  qed
qed

lemma from_runtime_module_own_executor:
  assumes "from_runtime_module T np l tgt names = Inr self"
  shows "own_executor self k"
  using assms
  by (auto simp: from_runtime_module_def tvm_device_def new_GraphModule_def own_executor_def
      split: option.splits)










end
